theory Spec2Isabelle
  imports Complex_Main "HOL-Library.Multiset"
begin

section \<open>Python values and faults\<close>

text \<open>
  The program is \<^verbatim>\<open>htcrystalball.py\<close>. Python's unbounded integers are \<^typ>\<open>int\<close>.
  Python's floats are modelled by \<^typ>\<open>real\<close>: every quotient and product is the exact one,
  so the rounding of IEEE doubles (and the overflow of very large operands) is outside the
  model. An uncaught exception is a value \<open>Inl e\<close> of the result type.
\<close>

datatype py_error = ZeroDivisionError | KeyError | IndexError | ArgumentTypeError

definition and_then :: "py_error + 'a \<Rightarrow> ('a \<Rightarrow> py_error + 'b) \<Rightarrow> py_error + 'b" where
  "and_then r f = (case r of Inl e \<Rightarrow> Inl e | Inr v \<Rightarrow> f v)"

definition py_truediv :: "real \<Rightarrow> real \<Rightarrow> py_error + real" where
  \<comment> \<open>\<^verbatim>\<open>a / b\<close>: true division, raising on a zero divisor.\<close>
  "py_truediv a b = (if b = 0 then Inl ZeroDivisionError else Inr (a / b))"

definition py_int :: "real \<Rightarrow> int" where
  \<comment> \<open>\<^verbatim>\<open>int(x)\<close> on a float: truncation towards zero.\<close>
  "py_int x = (if 0 \<le> x then \<lfloor>x\<rfloor> else \<lceil>x\<rceil>)"

definition py_round :: "real \<Rightarrow> int" where
  \<comment> \<open>\<^verbatim>\<open>round(x)\<close>: to the nearest integer, a tie to the even one.\<close>
  "py_round x =
     (let f = \<lfloor>x\<rfloor>; d = x - of_int f
      in if d < 1 / 2 then f else if 1 / 2 < d then f + 1 else if even f then f else f + 1)"

definition py_ceil :: "real \<Rightarrow> int" where
  \<comment> \<open>\<^verbatim>\<open>math.ceil(x)\<close>.\<close>
  "py_ceil x = \<lceil>x\<rceil>"

definition py_slice_to :: "'a list \<Rightarrow> int \<Rightarrow> 'a list" where
  \<comment> \<open>\<^verbatim>\<open>xs[:k]\<close>: a negative bound counts from the end.\<close>
  "py_slice_to xs k = (if 0 \<le> k then take (nat k) xs else take (nat (int (length xs) + k)) xs)"

section \<open>The data\<close>

text \<open>
  A slot-size entry of the inventory, a dictionary with the capacity keys. The key
  \<^verbatim>\<open>UtsnameNodename\<close> is not part of a slot-size entry as loaded (the node carries it);
  \<^verbatim>\<open>filter_slots\<close> writes it, so it is optional here and reading it while absent is a
  \<open>KeyError\<close>.
\<close>

record slot =
  SlotType :: string
  TotalSlots :: int
  TotalSlotCpus :: int
  TotalSlotMemory :: real
  TotalSlotDisk :: real
  TotalSlotGPUs :: int
  UtsnameNodename :: "string option"

text \<open>A node entry of the inventory: \<^verbatim>\<open>node["UtsnameNodename"]\<close> and \<^verbatim>\<open>node["slot_size"]\<close>.\<close>

record node_entry =
  node_UtsnameNodename :: string
  slot_size :: "slot list"

text \<open>
  The usage fields of a preview entry are strings in the source. \<open>Dashes\<close> is
  \<^verbatim>\<open>'------'\<close>, \<open>NoGpuRessource\<close> is \<^verbatim>\<open>"No GPU ressource!"\<close>, and \<open>Shown r c p\<close> is the text
  \<^verbatim>\<open>r/c (p%)\<close> built from the requested amount, the capacity and the whole percentage
  (the RAM text prints the request with two decimals and the unit GiB).
\<close>

datatype usage = Dashes | NoGpuRessource | Shown real real int

text \<open>
  \<^verbatim>\<open>wall_time_on_idle\<close> is the integer \<^verbatim>\<open>0\<close> or the text of a float; \<open>WallTime t\<close> is
  \<^verbatim>\<open>str(t)\<close>.
\<close>

datatype wall_time = NoWallTime | WallTime real

text \<open>The capacity view of one slot (\<^verbatim>\<open>node_dict\<close>), each key with the prefix \<open>nd_\<close>; its
  numbers are kept unprinted.\<close>

record node_dict =
  nd_node :: string
  nd_type :: string
  nd_total_slots :: int
  nd_cores :: int
  nd_gpus :: "int option"
  nd_disk :: real
  nd_ram :: real

text \<open>
  The fit view of one slot (\<^verbatim>\<open>preview_node\<close>). The placeholder \<^verbatim>\<open>'------'\<close> that the
  source first stores under \<^verbatim>\<open>sim_jobs\<close> is overwritten by an integer on both branches of
  every evaluator before the entry is returned, so the field is an \<^typ>\<open>int\<close> and each
  evaluator below builds the entry with the value of its branch.
\<close>

record preview_node =
  name :: string
  preview_type :: string
  fits :: string
  core_usage :: usage
  gpu_usage :: usage
  ram_usage :: usage
  sim_jobs :: int
  wall_time_on_idle :: wall_time

record preview_res =
  slots :: "node_dict list"
  preview :: "preview_node list"

section \<open>Quantities and units\<close>

text \<open>
  Characters are ASCII: \<^verbatim>\<open>\d\<close> and \<^verbatim>\<open>[0-9]\<close> are the ten decimal digits and
  \<^verbatim>\<open>str.lower\<close> maps the letters A to Z.
\<close>

definition is_digit :: "char \<Rightarrow> bool" where
  "is_digit c = (c \<in> set ''0123456789'')"

definition digit_val :: "char \<Rightarrow> nat" where
  "digit_val c = (case map_of (zip ''0123456789'' [0, 1, 2, 3, 4, 5, 6, 7, 8, 9]) c of
                    Some d \<Rightarrow> d | None \<Rightarrow> 0)"

definition digits_value :: "string \<Rightarrow> nat" where
  "digits_value ds = foldl (\<lambda>acc c. 10 * acc + digit_val c) 0 ds"

definition py_float :: "string \<Rightarrow> real" where
  \<comment> \<open>\<^verbatim>\<open>float(s)\<close> on a text of the shape \<^verbatim>\<open>\d*\.?\d+\<close>.\<close>
  "py_float s =
     (let ip = takeWhile is_digit s
      in case dropWhile is_digit s of
           [] \<Rightarrow> real (digits_value ip)
         | _ # fp \<Rightarrow> real (digits_value ip) + real (digits_value fp) / 10 ^ length fp)"

definition lower_char :: "char \<Rightarrow> char" where
  "lower_char c =
     (case map_of (zip ''ABCDEFGHIJKLMNOPQRSTUVWXYZ'' ''abcdefghijklmnopqrstuvwxyz'') c of
        Some l \<Rightarrow> l | None \<Rightarrow> c)"

definition lower :: "string \<Rightarrow> string" where
  "lower s = map lower_char s"

text \<open>
  \<^verbatim>\<open>validate_storage_size\<close>: the pattern \<^verbatim>\<open>^[0-9]+([kKmMgGtTpP]i?[bB]?)$\<close>, where
  \<^verbatim>\<open>$\<close> also matches before one final newline.
\<close>

definition storage_unit_token :: "string \<Rightarrow> bool" where
  "storage_unit_token r =
     (case r of
        [] \<Rightarrow> False
      | p # r1 \<Rightarrow>
          p \<in> set ''kKmMgGtTpP'' \<and>
          (let r2 = (case r1 of c # t \<Rightarrow> if c = CHR ''i'' then t else r1 | [] \<Rightarrow> r1);
               r3 = (case r2 of c # t \<Rightarrow> if c = CHR ''b'' \<or> c = CHR ''B'' then t else r2
                              | [] \<Rightarrow> r2)
           in r3 = [] \<or> r3 = [CHR 0x0A]))"

definition validate_storage_size :: "string \<Rightarrow> py_error + string" where
  "validate_storage_size arg_value =
     (if takeWhile is_digit arg_value \<noteq> [] \<and> storage_unit_token (dropWhile is_digit arg_value)
      then Inr arg_value else Inl ArgumentTypeError)"

text \<open>
  The pattern \<^verbatim>\<open>(\d*\.?\d+)\<close> of \<^verbatim>\<open>re.split\<close>. \<open>match_number s\<close> is the match that starts
  at the head of \<open>s\<close>, with the text after it: all leading digits, then a point and the
  digits after it when there are some; without them the leading digits alone.
  \<open>find_number s\<close> is the leftmost match: the text before it, the match, the text after it.
\<close>

definition match_number :: "string \<Rightarrow> (string \<times> string) option" where
  "match_number s =
     (let d = takeWhile is_digit s
      in case dropWhile is_digit s of
           [] \<Rightarrow> if d \<noteq> [] then Some (d, []) else None
         | c # r \<Rightarrow>
             if c = CHR ''.'' \<and> takeWhile is_digit r \<noteq> []
             then Some (d @ c # takeWhile is_digit r, dropWhile is_digit r)
             else if d \<noteq> [] then Some (d, c # r) else None)"

fun find_number :: "string \<Rightarrow> (string \<times> string \<times> string) option" where
  "find_number [] = None"
| "find_number (c # s) =
     (case match_number (c # s) of
        Some (m, r) \<Rightarrow> Some ([], m, r)
      | None \<Rightarrow> (case find_number s of
                   None \<Rightarrow> None
                 | Some (b, m, r) \<Rightarrow> Some (c # b, m, r)))"

text \<open>
  \<open>splitted\<close> is \<^verbatim>\<open>re.split(r'(\d*\.?\d+)', user_input.replace(' ', ''))\<close>: its element 1
  is the leftmost number and its element 2 the text from there to the next number or to
  the end. With no number in the input the list has one element and \<^verbatim>\<open>splitted[1]\<close>
  raises. \<open>split_default\<close> is the common body of \<^verbatim>\<open>split_number_unit\<close> and
  \<^verbatim>\<open>split_duration_unit\<close> after their first test.
\<close>

definition split_default :: "string \<Rightarrow> string \<Rightarrow> py_error + real \<times> string" where
  "split_default default_unit user_input =
     (case find_number (filter (\<lambda>c. c \<noteq> CHR '' '') user_input) of
        None \<Rightarrow> Inl IndexError
      | Some (before, number, rest) \<Rightarrow>
          let amount = py_float number;
              splitted2 = (case find_number rest of
                             None \<Rightarrow> rest
                           | Some (between, _, _) \<Rightarrow> between)
          in Inr (amount, if splitted2 = [] then default_unit else splitted2))"

definition split_number_unit :: "string option \<Rightarrow> py_error + real \<times> string" where
  \<comment> \<open>\<^verbatim>\<open>if not user_input\<close> holds for \<^verbatim>\<open>None\<close> and for the empty text.\<close>
  "split_number_unit user_input =
     (case user_input of
        None \<Rightarrow> Inr (0, ''GiB'')
      | Some u \<Rightarrow> if u = [] then Inr (0, ''GiB'') else split_default ''GiB'' u)"

definition split_duration_unit :: "string option \<Rightarrow> py_error + real \<times> string" where
  "split_duration_unit user_input =
     (case user_input of
        None \<Rightarrow> Inr (0, ''min'')
      | Some u \<Rightarrow> if u = [] then Inr (0, ''min'') else split_default ''min'' u)"

definition calc_to_bin :: "real \<Rightarrow> string \<Rightarrow> real" where
  "calc_to_bin number unit_str =
     (let unit_indicator = lower unit_str
      in if unit_indicator \<in> set [''kb'', ''k'', ''kib''] then number / 10 ^ 6
         else if unit_indicator \<in> set [''mb'', ''m'', ''mib''] then number / 10 ^ 3
         else if unit_indicator \<in> set [''tb'', ''t'', ''tib''] then number * 10 ^ 3
         else if unit_indicator \<in> set [''pb'', ''p'', ''pib''] then number * 10 ^ 6
         else number)"

definition calc_to_min :: "real \<Rightarrow> string \<Rightarrow> real" where
  "calc_to_min number unit_str =
     (let unit_indicator = lower unit_str
      in if unit_indicator \<in> set [''d'', ''dd''] then number * 24 * 60
         else if unit_indicator \<in> set [''h'', ''hh''] then number * 60
         else if unit_indicator \<in> set [''s'', ''ss''] then number / 60
         else number)"

section \<open>The inventory filter\<close>

text \<open>
  \<^verbatim>\<open>filter_slots\<close> appends the matching slot dictionaries themselves to \<open>res\<close> after
  writing the node's name into them, so the inventory it was given is changed too. The
  model returns both: the list \<open>res\<close> and the inventory as the call leaves it. The
  dictionaries of an inventory loaded from JSON are pairwise distinct objects, so a write
  to one entry changes no other.
\<close>

fun filter_slot_size ::
  "string \<Rightarrow> string \<Rightarrow> slot list \<Rightarrow> slot list \<Rightarrow> slot list \<times> slot list" where
  "filter_slot_size slot_type nodename [] res = (res, [])"
| "filter_slot_size slot_type nodename (s # rest) res =
     (if SlotType s = slot_type then
        let s' = s\<lparr>UtsnameNodename := Some nodename\<rparr>;
            (res', rest') = filter_slot_size slot_type nodename rest (res @ [s'])
        in (res', s' # rest')
      else
        let (res', rest') = filter_slot_size slot_type nodename rest res
        in (res', s # rest'))"

fun filter_nodes ::
  "string \<Rightarrow> node_entry list \<Rightarrow> slot list \<Rightarrow> slot list \<times> node_entry list" where
  "filter_nodes slot_type [] res = (res, [])"
| "filter_nodes slot_type (n # rest) res =
     (let (res1, size') = filter_slot_size slot_type (node_UtsnameNodename n) (slot_size n) res;
          (res2, rest') = filter_nodes slot_type rest res1
      in (res2, n\<lparr>slot_size := size'\<rparr> # rest'))"

definition filter_slots :: "node_entry list \<Rightarrow> string \<Rightarrow> slot list \<times> node_entry list" where
  "filter_slots slot_config slot_type = filter_nodes slot_type slot_config []"

section \<open>The fit evaluators\<close>

definition usage_percent :: "real \<Rightarrow> real \<Rightarrow> py_error + int" where
  \<comment> \<open>\<^verbatim>\<open>int(round((requested / capacity) * 100))\<close>\<close>
  "usage_percent requested capacity =
     and_then (py_truediv requested capacity) (\<lambda>q. Inr (py_round (q * 100)))"

definition shown_usage :: "real \<Rightarrow> real \<Rightarrow> py_error + usage" where
  "shown_usage requested capacity =
     and_then (usage_percent requested capacity) (\<lambda>p. Inr (Shown requested capacity p))"

definition check_dynamic_slots ::
  "slot \<Rightarrow> int \<Rightarrow> real \<Rightarrow> real \<Rightarrow> int \<Rightarrow> py_error + node_dict \<times> preview_node" where
  "check_dynamic_slots slot num_cpu amount_ram job_duration num_jobs =
     (case UtsnameNodename slot of
        None \<Rightarrow> Inl KeyError
      | Some nodename \<Rightarrow>
         let available_cores = TotalSlotCpus slot;
             node_dict = \<lparr>nd_node = nodename, nd_type = SlotType slot,
                          nd_total_slots = TotalSlots slot, nd_cores = TotalSlotCpus slot,
                          nd_gpus = None, nd_disk = TotalSlotDisk slot,
                          nd_ram = TotalSlotMemory slot\<rparr>;
             preview_node = \<lparr>name = nodename, preview_type = ''dynamic'', fits = ''NO'',
                             core_usage = Dashes, gpu_usage = Dashes, ram_usage = Dashes,
                             sim_jobs = 0, wall_time_on_idle = NoWallTime\<rparr>
         in and_then
           (if num_cpu \<le> available_cores \<and> amount_ram \<le> TotalSlotMemory slot then
              and_then (shown_usage (of_int num_cpu) (of_int (TotalSlotCpus slot))) (\<lambda>cu.
              and_then (shown_usage amount_ram (TotalSlotMemory slot)) (\<lambda>ru.
              and_then (py_truediv (of_int available_cores) (of_int num_cpu)) (\<lambda>cq.
              and_then (py_truediv (TotalSlotMemory slot) amount_ram) (\<lambda>rq.
                Inr (preview_node\<lparr>core_usage := cu, ram_usage := ru, fits := ''YES'',
                                    sim_jobs := min (py_int cq) (py_int rq)\<rparr>)))))
            else
              and_then (shown_usage (of_int num_cpu) (of_int (TotalSlotCpus slot))) (\<lambda>cu.
              and_then (shown_usage amount_ram (TotalSlotMemory slot)) (\<lambda>ru.
                Inr (preview_node\<lparr>core_usage := cu, sim_jobs := 0, ram_usage := ru,
                                    fits := ''NO''\<rparr>))))
           (\<lambda>preview_node.
              if num_cpu \<le> TotalSlotCpus slot \<and> amount_ram \<le> TotalSlotMemory slot
                 \<and> job_duration \<noteq> 0 then
                and_then (py_truediv (of_int (TotalSlotCpus slot)) (of_int num_cpu)) (\<lambda>cq.
                let cpu_fits = py_int cq in
                and_then
                  (if amount_ram = 0 then Inr cpu_fits
                   else and_then (py_truediv (TotalSlotMemory slot) amount_ram) (\<lambda>rq.
                          Inr (min cpu_fits (py_int rq)))) (\<lambda>jobs_parallel.
                and_then (py_truediv (of_int num_jobs) (of_int jobs_parallel)) (\<lambda>jq.
                  Inr (node_dict,
                       preview_node\<lparr>wall_time_on_idle :=
                         WallTime (of_int (py_ceil jq) * job_duration)\<rparr>))))
              else Inr (node_dict, preview_node)))"

definition check_static_slots ::
  "slot \<Rightarrow> int \<Rightarrow> real \<Rightarrow> real \<Rightarrow> int \<Rightarrow> py_error + node_dict \<times> preview_node" where
  "check_static_slots slot num_cores amount_ram job_duration num_jobs =
     (case UtsnameNodename slot of
        None \<Rightarrow> Inl KeyError
      | Some nodename \<Rightarrow>
         let available_slots = TotalSlotCpus slot;
             node_dict = \<lparr>nd_node = nodename, nd_type = SlotType slot,
                          nd_total_slots = TotalSlots slot, nd_cores = TotalSlotCpus slot,
                          nd_gpus = None, nd_disk = TotalSlotDisk slot,
                          nd_ram = TotalSlotMemory slot\<rparr>;
             preview_node = \<lparr>name = nodename, preview_type = ''static'', fits = ''NO'',
                             core_usage = Dashes, gpu_usage = Dashes, ram_usage = Dashes,
                             sim_jobs = 0, wall_time_on_idle = NoWallTime\<rparr>
         in if num_cores \<le> TotalSlotCpus slot \<and> amount_ram \<le> TotalSlotMemory slot then
              and_then (shown_usage (of_int num_cores) (of_int (TotalSlotCpus slot))) (\<lambda>cu.
              and_then (shown_usage amount_ram (TotalSlotMemory slot)) (\<lambda>ru.
              let preview_node = preview_node\<lparr>core_usage := cu, sim_jobs := available_slots,
                                               ram_usage := ru, fits := ''YES''\<rparr>
              in if job_duration \<noteq> 0 then
                   and_then (py_truediv (of_int (TotalSlotCpus slot)) (of_int num_cores)) (\<lambda>cq.
                   let cpu_fits = py_int cq in
                   and_then
                     (if amount_ram = 0 then Inr cpu_fits
                      else and_then (py_truediv (TotalSlotMemory slot) amount_ram) (\<lambda>rq.
                             Inr (min cpu_fits (py_int rq)))) (\<lambda>jobs_on_idle_slot.
                   and_then (py_truediv (of_int num_jobs) (of_int jobs_on_idle_slot)) (\<lambda>jq.
                   and_then (py_truediv jq (of_int (TotalSlots slot))) (\<lambda>sq.
                     Inr (node_dict,
                          preview_node\<lparr>wall_time_on_idle :=
                            WallTime (of_int (py_ceil sq) * job_duration)\<rparr>)))))
                 else Inr (node_dict, preview_node)))
            else
              and_then (shown_usage (of_int num_cores) (of_int (TotalSlotCpus slot))) (\<lambda>cu.
              and_then (shown_usage amount_ram (TotalSlotMemory slot)) (\<lambda>ru.
                Inr (node_dict,
                     preview_node\<lparr>core_usage := cu, sim_jobs := 0, ram_usage := ru,
                                   fits := ''NO''\<rparr>))))"

definition check_gpu_slots ::
  "slot \<Rightarrow> int \<Rightarrow> int \<Rightarrow> real \<Rightarrow> real \<Rightarrow> int \<Rightarrow> py_error + node_dict \<times> preview_node" where
  "check_gpu_slots slot num_cores num_gpu amount_ram job_duration num_jobs =
     (case UtsnameNodename slot of
        None \<Rightarrow> Inl KeyError
      | Some nodename \<Rightarrow>
         let available_slots = TotalSlotCpus slot;
             node_dict = \<lparr>nd_node = nodename, nd_type = SlotType slot,
                          nd_total_slots = TotalSlots slot, nd_cores = TotalSlotCpus slot,
                          nd_gpus = Some (TotalSlotGPUs slot), nd_disk = TotalSlotDisk slot,
                          nd_ram = TotalSlotMemory slot\<rparr>;
             preview_node = \<lparr>name = nodename, preview_type = ''gpu'', fits = ''NO'',
                             core_usage = Dashes, gpu_usage = Dashes, ram_usage = Dashes,
                             sim_jobs = 0, wall_time_on_idle = NoWallTime\<rparr>
         in if num_cores \<le> TotalSlotCpus slot \<and> amount_ram \<le> TotalSlotMemory slot
               \<and> num_gpu \<le> TotalSlotGPUs slot then
              and_then (shown_usage (of_int num_cores) (of_int (TotalSlotCpus slot))) (\<lambda>cu.
              and_then (shown_usage (of_int num_gpu) (of_int (TotalSlotGPUs slot))) (\<lambda>gu.
              and_then (py_truediv (of_int (TotalSlotGPUs slot)) (of_int num_gpu)) (\<lambda>gq.
              and_then (py_truediv (of_int available_slots) (of_int num_cores)) (\<lambda>cq.
              and_then (py_truediv (TotalSlotMemory slot) amount_ram) (\<lambda>rq.
              and_then (shown_usage amount_ram (TotalSlotMemory slot)) (\<lambda>ru.
              let preview_node =
                    preview_node\<lparr>core_usage := cu, gpu_usage := gu,
                                  sim_jobs := min (py_int gq) (min (py_int cq) (py_int rq)),
                                  ram_usage := ru, fits := ''YES''\<rparr>
              in if job_duration \<noteq> 0 then
                   and_then (py_truediv (of_int (TotalSlotCpus slot)) (of_int num_cores)) (\<lambda>cq'.
                   and_then (py_truediv (of_int (TotalSlotGPUs slot)) (of_int num_gpu)) (\<lambda>gq'.
                   let cpu_fits = py_int cq'; gpu_fits = py_int gq' in
                   and_then
                     (if amount_ram = 0 then Inr (min cpu_fits gpu_fits)
                      else and_then (py_truediv (TotalSlotMemory slot) amount_ram) (\<lambda>rq'.
                             Inr (min (min cpu_fits gpu_fits) (py_int rq')))) (\<lambda>jobs_on_idle_slot.
                   and_then (py_truediv (of_int num_jobs) (of_int jobs_on_idle_slot)) (\<lambda>jq.
                   and_then (py_truediv jq (of_int (TotalSlotGPUs slot))) (\<lambda>sq.
                     Inr (node_dict,
                          preview_node\<lparr>wall_time_on_idle :=
                            WallTime (of_int (py_ceil sq) * job_duration)\<rparr>))))))
                 else Inr (node_dict, preview_node)))))))
            else
              and_then (shown_usage (of_int num_cores) (of_int (TotalSlotCpus slot))) (\<lambda>cu.
              and_then
                (if TotalSlotGPUs slot = 0 then Inr NoGpuRessource
                 else shown_usage (of_int num_gpu) (of_int (TotalSlotGPUs slot))) (\<lambda>gu.
              and_then (shown_usage amount_ram (TotalSlotMemory slot)) (\<lambda>ru.
                Inr (node_dict,
                     preview_node\<lparr>core_usage := cu, gpu_usage := gu, sim_jobs := 0,
                                   ram_usage := ru, fits := ''NO''\<rparr>)))))"

section \<open>Ranking and the run over all slots\<close>

text \<open>
  \<^verbatim>\<open>sorted(node_preview, key=..., reverse=True)\<close>: Python's sort is stable, also with
  \<^verbatim>\<open>reverse=True\<close>, so it is the stable sort on the negated key.
\<close>

definition order_node_preview :: "preview_node list \<Rightarrow> preview_node list" where
  "order_node_preview node_preview = sort_key (\<lambda>nodes. - sim_jobs nodes) node_preview"

text \<open>The cap of lines 444 and 445 of \<^verbatim>\<open>check_slots\<close>.\<close>

definition cap_preview :: "int \<Rightarrow> preview_node list \<Rightarrow> preview_node list" where
  "cap_preview maxnodes pv =
     (if maxnodes \<noteq> 0 \<and> maxnodes < int (length pv) then py_slice_to pv maxnodes else pv)"

text \<open>One \<^verbatim>\<open>for node in ...\<close> loop of \<^verbatim>\<open>check_slots\<close>, appending both views.\<close>

fun check_each ::
  "(slot \<Rightarrow> py_error + node_dict \<times> preview_node) \<Rightarrow> slot list \<Rightarrow> preview_res
     \<Rightarrow> py_error + preview_res" where
  "check_each chk [] res = Inr res"
| "check_each chk (s # rest) res =
     and_then (chk s) (\<lambda>(node_dict, preview_node).
       check_each chk rest
         (res\<lparr>slots := slots res @ [node_dict], preview := preview res @ [preview_node]\<rparr>))"

text \<open>
  \<^verbatim>\<open>check_slots\<close>; \<open>None\<close> is the empty dictionary it returns for a request with no CPU.
  The tables it prints are presentation and are not modelled, so \<open>amount_disk\<close> and
  \<open>verbose\<close>, which only the printing reads, do not occur on the right.
\<close>

definition check_slots ::
  "slot list \<Rightarrow> slot list \<Rightarrow> slot list \<Rightarrow> int \<Rightarrow> real \<Rightarrow> real \<Rightarrow> int \<Rightarrow> int \<Rightarrow> real \<Rightarrow> int \<Rightarrow> bool
     \<Rightarrow> py_error + preview_res option" where
  "check_slots static dynamic gpu num_cpu amount_ram amount_disk num_gpu num_jobs
       job_duration maxnodes verbose =
     (let preview_res = \<lparr>slots = [], preview = []\<rparr> in
      and_then
        (if num_cpu \<noteq> 0 \<and> num_gpu = 0 then
           and_then (check_each (\<lambda>node. check_dynamic_slots node num_cpu amount_ram
                                   job_duration num_jobs) dynamic preview_res) (\<lambda>res.
           and_then (check_each (\<lambda>node. check_static_slots node num_cpu amount_ram
                                   job_duration num_jobs) static res) (\<lambda>res.
             Inr (Some res)))
         else if num_cpu \<noteq> 0 \<and> num_gpu \<noteq> 0 then
           and_then (check_each (\<lambda>node. check_gpu_slots node num_cpu num_gpu amount_ram
                                   job_duration num_jobs) gpu preview_res) (\<lambda>res.
             Inr (Some res))
         else Inr None)
        (\<lambda>r. case r of
           None \<Rightarrow> Inr None
         | Some res \<Rightarrow>
             Inr (Some (res\<lparr>preview := cap_preview maxnodes
                                          (order_node_preview (preview res))\<rparr>))))"

text \<open>
  \<^verbatim>\<open>prepare_checking\<close>. The inventory that \<^verbatim>\<open>define_slots\<close> loads from the configuration
  file is the parameter \<open>slot_config\<close>. The result pairs the returned truth value with what
  \<^verbatim>\<open>check_slots\<close> produced for the tables, \<open>None\<close> when it was not called.
\<close>

definition prepare_checking ::
  "node_entry list \<Rightarrow> int \<Rightarrow> int \<Rightarrow> string option \<Rightarrow> string option \<Rightarrow> int \<Rightarrow> string option \<Rightarrow> int
     \<Rightarrow> bool \<Rightarrow> py_error + bool \<times> preview_res option" where
  "prepare_checking slot_config cpu gpu ram disk jobs job_duration maxnodes verbose =
     (let (static_slts, config1) = filter_slots slot_config ''static'';
          (dynamic_slts, config2) = filter_slots config1 ''dynamic'';
          (gpu_slts, config3) = filter_slots config2 ''gpu''
      in and_then (split_number_unit ram) (\<lambda>(ram, ram_unit).
         let ram = calc_to_bin ram ram_unit in
         and_then (split_number_unit disk) (\<lambda>(disk, disk_unit).
         let disk = calc_to_bin disk disk_unit in
         and_then (split_duration_unit job_duration) (\<lambda>(job_duration, duration_unit).
         let job_duration = calc_to_min job_duration duration_unit in
         if cpu = 0 then Inr (False, None)
         else if ram = 0 then Inr (False, None)
         else and_then (check_slots static_slts dynamic_slts gpu_slts cpu ram disk gpu jobs
                          job_duration maxnodes verbose) (\<lambda>shown. Inr (True, shown))))))"

section \<open>Names used in the statements, and sample data\<close>

text \<open>The write \<^verbatim>\<open>slot["UtsnameNodename"] = node["UtsnameNodename"]\<close> of \<^verbatim>\<open>filter_slots\<close>.\<close>

definition tag_slot :: "string \<Rightarrow> slot \<Rightarrow> slot" where
  "tag_slot nodename s = s\<lparr>UtsnameNodename := Some nodename\<rparr>"

definition sample_preview :: "string \<Rightarrow> int \<Rightarrow> preview_node" where
  "sample_preview n j =
     \<lparr>name = n, preview_type = ''dynamic'', fits = ''YES'', core_usage = Dashes,
      gpu_usage = Dashes, ram_usage = Dashes, sim_jobs = j, wall_time_on_idle = NoWallTime\<rparr>"

definition untagged_static :: slot where
  "untagged_static =
     \<lparr>SlotType = ''static'', TotalSlots = 10, TotalSlotCpus = 8, TotalSlotMemory = 64,
      TotalSlotDisk = 100, TotalSlotGPUs = 0, UtsnameNodename = None\<rparr>"

definition sample_slot :: "string \<Rightarrow> int \<Rightarrow> int \<Rightarrow> real \<Rightarrow> int \<Rightarrow> slot" where
  "sample_slot ty n cpus mem gpus_n =
     \<lparr>SlotType = ty, TotalSlots = n, TotalSlotCpus = cpus, TotalSlotMemory = mem,
      TotalSlotDisk = 100, TotalSlotGPUs = gpus_n, UtsnameNodename = Some ''node1''\<rparr>"

text \<open>An inventory whose dynamic slot has no cores and whose GPU slot has no memory.\<close>

definition sample_inventory :: "node_entry list" where
  "sample_inventory =
     [\<lparr>node_UtsnameNodename = ''cpu1'',
       slot_size = [untagged_static,
                    untagged_static\<lparr>SlotType := ''dynamic'', TotalSlots := 1,
                                     TotalSlotCpus := 0\<rparr>]\<rparr>,
      \<lparr>node_UtsnameNodename = ''gpu1'',
       slot_size = [untagged_static\<lparr>SlotType := ''gpu'', TotalSlots := 2,
                                     TotalSlotMemory := 0, TotalSlotGPUs := 4\<rparr>]\<rparr>]"

text \<open>
  An inventory on which a run returns, and the two views that a request of four cores,
  16 GiB, twenty jobs of two hours and no GPU gets on it.
\<close>

definition returning_inventory :: "node_entry list" where
  "returning_inventory =
     [\<lparr>node_UtsnameNodename = ''cpu1'',
       slot_size = [untagged_static,
                    untagged_static\<lparr>SlotType := ''dynamic'', TotalSlots := 1,
                                     TotalSlotCpus := 32, TotalSlotMemory := 500\<rparr>]\<rparr>]"

definition returning_result :: preview_res where
  "returning_result =
     \<lparr>slots = [\<lparr>nd_node = ''cpu1'', nd_type = ''dynamic'', nd_total_slots = 1,
                 nd_cores = 32, nd_gpus = None, nd_disk = 100, nd_ram = 500\<rparr>,
                \<lparr>nd_node = ''cpu1'', nd_type = ''static'', nd_total_slots = 10,
                 nd_cores = 8, nd_gpus = None, nd_disk = 100, nd_ram = 64\<rparr>],
      preview = [\<lparr>name = ''cpu1'', preview_type = ''dynamic'', fits = ''YES'',
                   core_usage = Shown 4 32 12, gpu_usage = Dashes,
                   ram_usage = Shown 16 500 3, sim_jobs = 8,
                   wall_time_on_idle = WallTime 360\<rparr>,
                 \<lparr>name = ''cpu1'', preview_type = ''static'', fits = ''YES'',
                   core_usage = Shown 4 8 50, gpu_usage = Dashes,
                   ram_usage = Shown 16 64 25, sim_jobs = 8,
                   wall_time_on_idle = WallTime 120\<rparr>]\<rparr>"

section \<open>The ranker\<close>

lemma order_node_preview_sorted:
  "sorted (map (\<lambda>n. - sim_jobs n) (order_node_preview xs))"
  unfolding order_node_preview_def by (rule sorted_sort_key)

lemma order_node_preview_id:
  "sorted (map (\<lambda>n. - sim_jobs n) ys) \<Longrightarrow> order_node_preview ys = ys"
  unfolding order_node_preview_def by (rule sort_key_id_if_sorted)

lemma length_order_node_preview: "length (order_node_preview xs) = length xs"
  by (simp add: order_node_preview_def)

lemma set_order_node_preview: "set (order_node_preview xs) = set xs"
  by (simp add: order_node_preview_def)

lemma cap_preview_sorted:
  assumes "sorted (map (\<lambda>n. - sim_jobs n) ys)"
  shows "sorted (map (\<lambda>n. - sim_jobs n) (cap_preview k ys))"
proof -
  have "sorted (take m (map (\<lambda>n. - sim_jobs n) ys))" for m
    using assms by (rule sorted_wrt_take)
  then show ?thesis
    using assms by (simp add: cap_preview_def py_slice_to_def take_map)
qed

lemma cap_preview_twice: "0 \<le> k \<Longrightarrow> cap_preview k (cap_preview k ys) = cap_preview k ys"
  by (simp add: cap_preview_def py_slice_to_def)

lemma cap_preview_take:
  "0 < k \<Longrightarrow> k < int (length ys) \<Longrightarrow> cap_preview k ys = take (nat k) ys"
  by (simp add: cap_preview_def py_slice_to_def)

lemma set_cap_preview: "set (cap_preview k ys) \<subseteq> set ys"
  by (simp add: cap_preview_def py_slice_to_def set_take_subset)

lemma order_sample:
  "order_node_preview [sample_preview ''a'' 3, sample_preview ''b'' 8, sample_preview ''c'' 3]
     = [sample_preview ''b'' 8, sample_preview ''a'' 3, sample_preview ''c'' 3]"
  by (simp add: order_node_preview_def sample_preview_def)

text \<open>
  Claim C7. The ranker of \<^verbatim>\<open>check_slots\<close> is \<open>order_node_preview\<close> followed by
  \<open>cap_preview\<close>. The ordering is a stable sort by \<open>sim_jobs\<close>, largest first: its result
  is ordered, it is a rearrangement of the input, and the entries of each \<open>sim_jobs\<close> value
  keep their input order. With a cap \<open>k\<close> above zero and more than \<open>k\<close> entries the result
  is the first \<open>k\<close> entries of the ordering and has length \<open>k\<close>; with the cap zero all
  entries stay. Ordering an ordered list changes nothing, and for a cap that is not
  negative ranking a ranked list changes nothing.
\<close>

theorem ranker_stable_descending_capped:
  "sorted_wrt (\<lambda>a b. sim_jobs b \<le> sim_jobs a) (order_node_preview xs)
   \<and> mset (order_node_preview xs) = mset xs
   \<and> (\<forall>j. filter (\<lambda>n. sim_jobs n = j) (order_node_preview xs)
            = filter (\<lambda>n. sim_jobs n = j) xs)
   \<and> (0 < k \<and> k < int (length xs) \<longrightarrow>
        cap_preview k (order_node_preview xs) = take (nat k) (order_node_preview xs)
        \<and> int (length (cap_preview k (order_node_preview xs))) = k)
   \<and> cap_preview 0 (order_node_preview xs) = order_node_preview xs
   \<and> length (cap_preview 0 (order_node_preview xs)) = length xs
   \<and> order_node_preview (order_node_preview xs) = order_node_preview xs
   \<and> (0 \<le> k \<longrightarrow>
        cap_preview k (order_node_preview (cap_preview k (order_node_preview xs)))
          = cap_preview k (order_node_preview xs))"
proof -
  let ?ys = "order_node_preview xs"
  have srt: "sorted (map (\<lambda>n. - sim_jobs n) ?ys)"
    by (rule order_node_preview_sorted)
  then have a: "sorted_wrt (\<lambda>a b. sim_jobs b \<le> sim_jobs a) ?ys"
    by (simp add: sorted_map)
  have b: "mset ?ys = mset xs"
    by (simp add: order_node_preview_def)
  have c: "\<forall>j. filter (\<lambda>n. sim_jobs n = j) ?ys = filter (\<lambda>n. sim_jobs n = j) xs"
  proof
    fix j
    show "filter (\<lambda>n. sim_jobs n = j) ?ys = filter (\<lambda>n. sim_jobs n = j) xs"
      using sort_key_stable [of "\<lambda>n. - sim_jobs n" "- j" xs]
      by (simp add: order_node_preview_def)
  qed
  have d: "0 < k \<and> k < int (length xs) \<longrightarrow>
             cap_preview k ?ys = take (nat k) ?ys \<and> int (length (cap_preview k ?ys)) = k"
    by (auto simp: cap_preview_take length_order_node_preview min_def)
  have e: "cap_preview 0 ?ys = ?ys"
    by (simp add: cap_preview_def)
  have e': "length (cap_preview 0 ?ys) = length xs"
    by (simp add: e length_order_node_preview)
  have f: "order_node_preview ?ys = ?ys"
    using srt by (rule order_node_preview_id)
  have g: "0 \<le> k \<longrightarrow>
             cap_preview k (order_node_preview (cap_preview k ?ys)) = cap_preview k ?ys"
  proof
    assume "0 \<le> k"
    have "order_node_preview (cap_preview k ?ys) = cap_preview k ?ys"
      using cap_preview_sorted [OF srt] by (rule order_node_preview_id)
    then show "cap_preview k (order_node_preview (cap_preview k ?ys)) = cap_preview k ?ys"
      using \<open>0 \<le> k\<close> by (simp add: cap_preview_twice)
  qed
  from a b c d e e' f g show ?thesis by blast
qed

theorem ranker_stable_descending_capped_witness:
  "(0::int) < 2
   \<and> (2::int) < int (length [sample_preview ''a'' 3, sample_preview ''b'' 8,
                              sample_preview ''c'' 3])
   \<and> cap_preview 2 (order_node_preview
        [sample_preview ''a'' 3, sample_preview ''b'' 8, sample_preview ''c'' 3])
       = [sample_preview ''b'' 8, sample_preview ''a'' 3]
   \<and> cap_preview 2 (order_node_preview (cap_preview 2 (order_node_preview
        [sample_preview ''a'' 3, sample_preview ''b'' 8, sample_preview ''c'' 3])))
       = [sample_preview ''b'' 8, sample_preview ''a'' 3]"
  using ranker_stable_descending_capped
          [of "[sample_preview ''a'' 3, sample_preview ''b'' 8, sample_preview ''c'' 3]" 2]
  by (simp add: order_sample cap_preview_def py_slice_to_def)

section \<open>What the inventory filter returns and leaves behind\<close>

lemma filter_slot_size_eq:
  "filter_slot_size t nm ss res =
     (res @ map (tag_slot nm) (filter (\<lambda>s. SlotType s = t) ss),
      map (\<lambda>s. if SlotType s = t then tag_slot nm s else s) ss)"
  by (induction ss arbitrary: res) (simp_all add: tag_slot_def Let_def)

lemma filter_nodes_eq:
  "filter_nodes t ns res =
     (res @ concat (map (\<lambda>n. map (tag_slot (node_UtsnameNodename n))
                               (filter (\<lambda>s. SlotType s = t) (slot_size n))) ns),
      map (\<lambda>n. n\<lparr>slot_size := map (\<lambda>s. if SlotType s = t
                                           then tag_slot (node_UtsnameNodename n) s else s)
                                  (slot_size n)\<rparr>) ns)"
  by (induction ns arbitrary: res) (simp_all add: filter_slot_size_eq)

lemma filter_tagged:
  "filter (\<lambda>s. SlotType s = t) (map (\<lambda>s. if SlotType s = t then tag_slot nm s else s) ss)
     = map (tag_slot nm) (filter (\<lambda>s. SlotType s = t) ss)"
  by (induction ss) (simp_all add: tag_slot_def)

text \<open>
  Claim C4, as amended. \<open>filter_slots\<close> returns the slot entries of the requested class in
  the inventory's order, node by node and within a node in the order of its
  \<^verbatim>\<open>slot_size\<close> list, each with the name of its node written under \<^verbatim>\<open>UtsnameNodename\<close>.
  The inventory it leaves behind has the same nodes and entries in the same order, where
  the entries of the requested class carry that name and every other entry is unchanged;
  the returned list is exactly the entries of that class in the inventory as left behind.
\<close>

theorem filter_slots_tags_in_order:
  "fst (filter_slots inventory t) =
     concat (map (\<lambda>n. map (tag_slot (node_UtsnameNodename n))
                        (filter (\<lambda>s. SlotType s = t) (slot_size n))) inventory)
   \<and> snd (filter_slots inventory t) =
       map (\<lambda>n. n\<lparr>slot_size := map (\<lambda>s. if SlotType s = t
                                            then tag_slot (node_UtsnameNodename n) s else s)
                                   (slot_size n)\<rparr>) inventory
   \<and> fst (filter_slots inventory t) =
       filter (\<lambda>s. SlotType s = t) (concat (map slot_size (snd (filter_slots inventory t))))"
proof -
  have "filter (\<lambda>s. SlotType s = t)
          (concat (map slot_size
             (map (\<lambda>n. n\<lparr>slot_size := map (\<lambda>s. if SlotType s = t
                                            then tag_slot (node_UtsnameNodename n) s else s)
                                   (slot_size n)\<rparr>) inventory)))
        = concat (map (\<lambda>n. map (tag_slot (node_UtsnameNodename n))
                        (filter (\<lambda>s. SlotType s = t) (slot_size n))) inventory)"
    by (induction inventory) (simp_all add: filter_tagged)
  then show ?thesis
    by (simp add: filter_slots_def filter_nodes_eq)
qed

text \<open>
  Claim C4 as stated fails: after the call the inventory differs from the one passed in,
  and the returned entry is not the entry as it was in the inventory.
\<close>

theorem filter_slots_mutates_inventory:
  "snd (filter_slots [\<lparr>node_UtsnameNodename = ''cpu1'', slot_size = [untagged_static]\<rparr>]
          ''static'')
     \<noteq> [\<lparr>node_UtsnameNodename = ''cpu1'', slot_size = [untagged_static]\<rparr>]
   \<and> fst (filter_slots [\<lparr>node_UtsnameNodename = ''cpu1'', slot_size = [untagged_static]\<rparr>]
            ''static'')
     \<noteq> [untagged_static]"
  by (simp add: filter_slots_def untagged_static_def Let_def)

section \<open>The fit evaluators on one slot\<close>

lemmas eval_defs = shown_usage_def usage_percent_def py_truediv_def and_then_def
  py_round_def py_int_def py_ceil_def Let_def

lemma and_then_Inr: "and_then r f = Inr y \<longleftrightarrow> (\<exists>v. r = Inr v \<and> f v = Inr y)"
  by (cases r) (simp_all add: and_then_def)

text \<open>
  What the three evaluators do on a tagged slot whose CPU and RAM capacities are not zero,
  for a request with at least one core and some RAM. The quotients here are the exact ones
  of the model: where the quotient of two doubles is rounded across a whole number, the
  \<open>sim_jobs\<close> or the percentage that the program prints can differ by one from the
  value below. No statement of a claim rests on these three lemmas.
\<close>

lemma dynamic_fit_formula:
  assumes nm: "UtsnameNodename s = Some nm"
    and cpu: "1 \<le> num_cpu" and ramp: "0 < amount_ram"
    and c0: "TotalSlotCpus s \<noteq> 0" and m0: "TotalSlotMemory s \<noteq> 0"
  shows "\<exists>d p. check_dynamic_slots s num_cpu amount_ram job_duration num_jobs = Inr (d, p)
           \<and> (fits p = ''YES'') = (num_cpu \<le> TotalSlotCpus s \<and> amount_ram \<le> TotalSlotMemory s)
           \<and> sim_jobs p = (if num_cpu \<le> TotalSlotCpus s \<and> amount_ram \<le> TotalSlotMemory s
                           then min \<lfloor>real_of_int (TotalSlotCpus s) / real_of_int num_cpu\<rfloor>
                                    \<lfloor>TotalSlotMemory s / amount_ram\<rfloor>
                           else 0)"
proof (cases "num_cpu \<le> TotalSlotCpus s \<and> amount_ram \<le> TotalSlotMemory s")
  case False
  then show ?thesis
    using nm cpu ramp c0 m0
    by (auto simp: check_dynamic_slots_def eval_defs)
next
  case True
  then have cq: "1 \<le> real_of_int (TotalSlotCpus s) / real_of_int num_cpu"
    using cpu by (simp add: le_divide_eq)
  have rq: "1 \<le> TotalSlotMemory s / amount_ram"
    using True ramp by (simp add: le_divide_eq)
  have f1: "1 \<le> \<lfloor>real_of_int (TotalSlotCpus s) / real_of_int num_cpu\<rfloor>"
    using cq by (simp add: le_floor_iff)
  have f2: "1 \<le> \<lfloor>TotalSlotMemory s / amount_ram\<rfloor>"
    using rq by (simp add: le_floor_iff)
  have jp: "min \<lfloor>real_of_int (TotalSlotCpus s) / real_of_int num_cpu\<rfloor>
                \<lfloor>TotalSlotMemory s / amount_ram\<rfloor> \<noteq> 0"
    using f1 f2 by linarith
  have nn1: "0 \<le> real_of_int (TotalSlotCpus s) / real_of_int num_cpu"
    using cq by linarith
  have nn2: "0 \<le> TotalSlotMemory s / amount_ram"
    using rq by linarith
  show ?thesis
    using True nm cpu ramp c0 m0 jp nn1 nn2
    by (simp add: check_dynamic_slots_def eval_defs)
qed

lemma static_fit_reports_cpus:
  assumes nm: "UtsnameNodename s = Some nm"
    and cpu: "1 \<le> num_cores" and ramp: "0 < amount_ram"
    and fit: "num_cores \<le> TotalSlotCpus s" "amount_ram \<le> TotalSlotMemory s"
    and ts: "job_duration = 0 \<or> TotalSlots s \<noteq> 0"
  shows "\<exists>d p. check_static_slots s num_cores amount_ram job_duration num_jobs = Inr (d, p)
           \<and> fits p = ''YES'' \<and> sim_jobs p = TotalSlotCpus s"
proof -
  have cq: "1 \<le> real_of_int (TotalSlotCpus s) / real_of_int num_cores"
    using cpu fit by (simp add: le_divide_eq)
  have rq: "1 \<le> TotalSlotMemory s / amount_ram"
    using fit ramp by (simp add: le_divide_eq)
  have f1: "1 \<le> \<lfloor>real_of_int (TotalSlotCpus s) / real_of_int num_cores\<rfloor>"
    using cq by (simp add: le_floor_iff)
  have f2: "1 \<le> \<lfloor>TotalSlotMemory s / amount_ram\<rfloor>"
    using rq by (simp add: le_floor_iff)
  have jp: "min \<lfloor>real_of_int (TotalSlotCpus s) / real_of_int num_cores\<rfloor>
                \<lfloor>TotalSlotMemory s / amount_ram\<rfloor> \<noteq> 0"
    using f1 f2 by linarith
  have nn1: "0 \<le> real_of_int (TotalSlotCpus s) / real_of_int num_cores"
    using cq by linarith
  have nn2: "0 \<le> TotalSlotMemory s / amount_ram"
    using rq by linarith
  have c0: "TotalSlotCpus s \<noteq> 0"
    using cpu fit by linarith
  have m0: "TotalSlotMemory s \<noteq> 0"
    using ramp fit by linarith
  show ?thesis
    using nm cpu ramp fit ts jp nn1 nn2 c0 m0
    by (auto simp: check_static_slots_def eval_defs)
qed

lemma gpu_zero_sentinel:
  assumes nm: "UtsnameNodename s = Some nm"
    and g0: "TotalSlotGPUs s = 0" and g: "1 \<le> num_gpu"
    and c0: "TotalSlotCpus s \<noteq> 0" and m0: "TotalSlotMemory s \<noteq> 0"
  shows "\<exists>d p. check_gpu_slots s num_cores num_gpu amount_ram job_duration num_jobs = Inr (d, p)
           \<and> fits p = ''NO'' \<and> gpu_usage p = NoGpuRessource \<and> sim_jobs p = 0"
  using assms by (simp add: check_gpu_slots_def eval_defs)

text \<open>
  Claim C1. The static evaluator on the slot of the specification's scenario, ten slot
  instances of eight cores and 64 GiB, and a request of eight cores and 64 GiB: the job
  fits, and the reported \<open>sim_jobs\<close> is the eight of \<^verbatim>\<open>TotalSlotCpus\<close>, not the ten of
  \<^verbatim>\<open>TotalSlots\<close>.
\<close>

theorem static_sim_jobs_at_scenario:
  "check_static_slots (sample_slot ''static'' 10 8 64 0) 8 64 0 1 =
     Inr (\<lparr>nd_node = ''node1'', nd_type = ''static'', nd_total_slots = 10, nd_cores = 8,
            nd_gpus = None, nd_disk = 100, nd_ram = 64\<rparr>,
          \<lparr>name = ''node1'', preview_type = ''static'', fits = ''YES'',
            core_usage = Shown 8 8 100, gpu_usage = Dashes, ram_usage = Shown 64 64 100,
            sim_jobs = 8, wall_time_on_idle = NoWallTime\<rparr>)
   \<and> TotalSlots (sample_slot ''static'' 10 8 64 0) = 10"
  by (simp add: check_static_slots_def sample_slot_def eval_defs)

text \<open>
  Claim C2. Each of the three evaluators raises \<open>ZeroDivisionError\<close> on a slot whose CPU
  capacity is zero and on a slot whose RAM capacity is zero: no entry is returned.
\<close>

theorem evaluators_raise_on_zero_capacity:
  "check_dynamic_slots (sample_slot ''dynamic'' 1 0 500 0) 1 1 0 1 = Inl ZeroDivisionError
   \<and> check_dynamic_slots (sample_slot ''dynamic'' 1 32 0 0) 1 1 0 1 = Inl ZeroDivisionError
   \<and> check_static_slots (sample_slot ''static'' 10 0 64 0) 1 1 0 1 = Inl ZeroDivisionError
   \<and> check_static_slots (sample_slot ''static'' 10 8 0 0) 1 1 0 1 = Inl ZeroDivisionError
   \<and> check_gpu_slots (sample_slot ''gpu'' 2 0 64 4) 1 1 1 0 1 = Inl ZeroDivisionError
   \<and> check_gpu_slots (sample_slot ''gpu'' 2 8 0 4) 1 1 1 0 1 = Inl ZeroDivisionError"
  by (simp add: check_static_slots_def check_dynamic_slots_def check_gpu_slots_def
        sample_slot_def eval_defs)

text \<open>
  Claim C5. The dynamic evaluator on a dynamic slot with no cores and a request of four
  cores and 16 GiB raises \<open>ZeroDivisionError\<close> where the claim has it report that the job
  does not fit, with zero concurrent jobs.
\<close>

theorem dynamic_raises_on_zero_cpu_capacity:
  "check_dynamic_slots (sample_slot ''dynamic'' 1 0 500 0) 4 16 0 1 = Inl ZeroDivisionError"
  by (simp add: check_dynamic_slots_def sample_slot_def eval_defs)

text \<open>
  Claim C6. The GPU evaluator on a GPU slot with no GPU and no cores raises
  \<open>ZeroDivisionError\<close> at the core usage, before the GPU usage is set; and a run over that
  slot and a second, well-formed GPU slot ends with the error, so the second slot is not
  reported.
\<close>

theorem gpu_raises_before_sentinel:
  "check_gpu_slots (sample_slot ''gpu'' 2 0 64 0) 1 1 1 0 1 = Inl ZeroDivisionError
   \<and> check_slots [] [] [sample_slot ''gpu'' 2 0 64 0, sample_slot ''gpu'' 2 8 64 4]
        1 1 0 1 1 0 0 False = Inl ZeroDivisionError"
  by (simp add: check_slots_def check_gpu_slots_def sample_slot_def eval_defs)

section \<open>Storage quantities\<close>

lemmas unit_defs = split_number_unit_def split_duration_unit_def split_default_def
  match_number_def is_digit_def py_float_def digits_value_def digit_val_def
  calc_to_bin_def calc_to_min_def lower_def lower_char_def

lemma storage_examples:
  "split_number_unit (Some ''10GB'') = Inr (10, ''GB'') \<and> calc_to_bin 10 ''GB'' = 10
   \<and> split_number_unit (Some ''100MB'') = Inr (100, ''MB'') \<and> calc_to_bin 100 ''MB'' = 1 / 10
   \<and> split_number_unit (Some []) = Inr (0, ''GiB'') \<and> split_number_unit None = Inr (0, ''GiB'')"
  by (simp add: unit_defs)

lemma calc_to_bin_listed:
  "lower u \<in> set [''kb'', ''k'', ''kib''] \<Longrightarrow> calc_to_bin x u = x / 10 ^ 6"
  "lower u \<in> set [''mb'', ''m'', ''mib''] \<Longrightarrow> calc_to_bin x u = x / 10 ^ 3"
  "lower u \<in> set [''tb'', ''t'', ''tib''] \<Longrightarrow> calc_to_bin x u = x * 10 ^ 3"
  "lower u \<in> set [''pb'', ''p'', ''pib''] \<Longrightarrow> calc_to_bin x u = x * 10 ^ 6"
  by (auto simp: calc_to_bin_def)

text \<open>
  Claim C3. The input \<^verbatim>\<open>10Ki\<close> passes \<open>validate_storage_size\<close> and splits into the amount
  10 and the unit \<^verbatim>\<open>Ki\<close>; \<open>calc_to_bin\<close> lists \<^verbatim>\<open>kb\<close>, \<^verbatim>\<open>k\<close> and \<^verbatim>\<open>kib\<close> but not \<^verbatim>\<open>ki\<close>, so
  it returns the amount unchanged, as for GiB, and not the amount divided by \<open>10 ^ 6\<close> that
  it returns for \<^verbatim>\<open>kb\<close>.
\<close>

theorem calc_to_bin_misses_ki:
  "validate_storage_size ''10Ki'' = Inr ''10Ki''
   \<and> split_number_unit (Some ''10Ki'') = Inr (10, ''Ki'')
   \<and> calc_to_bin 10 ''Ki'' = 10
   \<and> calc_to_bin 10 ''Ki'' \<noteq> 10 / 10 ^ 6
   \<and> calc_to_bin 10 ''kb'' = 10 / 10 ^ 6"
  by (simp add: validate_storage_size_def storage_unit_token_def unit_defs)

section \<open>The run over all slots\<close>

lemma check_each_result:
  "check_each chk xs res0 = Inr res \<Longrightarrow>
     \<exists>rs. map chk xs = map Inr rs \<and> slots res = slots res0 @ map fst rs
          \<and> preview res = preview res0 @ map snd rs"
proof (induction xs arbitrary: res0)
  case Nil
  then show ?case by simp
next
  case (Cons s rest)
  from Cons.prems obtain d p where sp: "chk s = Inr (d, p)"
    and rest: "check_each chk rest
                 (res0\<lparr>slots := slots res0 @ [d], preview := preview res0 @ [p]\<rparr>) = Inr res"
    by (auto simp: and_then_Inr)
  from Cons.IH [OF rest] obtain rs where
    "map chk rest = map Inr rs" "slots res = (slots res0 @ [d]) @ map fst rs"
    "preview res = (preview res0 @ [p]) @ map snd rs"
    by auto
  then have "map chk (s # rest) = map Inr ((d, p) # rs)
      \<and> slots res = slots res0 @ map fst ((d, p) # rs)
      \<and> preview res = preview res0 @ map snd ((d, p) # rs)"
    using sp by simp
  then show ?case by blast
qed

lemma map_Inr_member:
  assumes "map chk xs = map Inr rs" and "r \<in> set rs"
  shows "\<exists>s\<in>set xs. chk s = Inr r"
proof -
  from assms(2) obtain i where i: "i < length rs" "rs ! i = r"
    by (auto simp: in_set_conv_nth)
  from assms(1) have len: "length xs = length rs"
    by (metis length_map)
  from assms(1) have "map chk xs ! i = map Inr rs ! i"
    by simp
  with i len have "chk (xs ! i) = Inr r"
    by simp
  moreover have "xs ! i \<in> set xs"
    using i len by simp
  ultimately show ?thesis by blast
qed

lemma dynamic_preview_type:
  "check_dynamic_slots s c r t j = Inr (d, p) \<Longrightarrow> preview_type p = ''dynamic''"
  unfolding check_dynamic_slots_def Let_def
  by (cases "UtsnameNodename s") (auto simp: and_then_Inr split: if_split_asm)

lemma static_preview_type:
  "check_static_slots s c r t j = Inr (d, p) \<Longrightarrow> preview_type p = ''static''"
  unfolding check_static_slots_def Let_def
  by (cases "UtsnameNodename s") (auto simp: and_then_Inr split: if_split_asm)

lemma gpu_preview_type:
  "check_gpu_slots s c g r t j = Inr (d, p) \<Longrightarrow> preview_type p = ''gpu''"
  unfolding check_gpu_slots_def Let_def
  by (cases "UtsnameNodename s") (auto simp: and_then_Inr split: if_split_asm)

lemma check_slots_gpu_branch:
  "num_cpu \<noteq> 0 \<Longrightarrow> num_gpu \<noteq> 0 \<Longrightarrow>
   check_slots static dynamic gpu num_cpu amount_ram amount_disk num_gpu num_jobs
       job_duration maxnodes verbose =
     and_then (check_each (\<lambda>node. check_gpu_slots node num_cpu num_gpu amount_ram
                             job_duration num_jobs) gpu \<lparr>slots = [], preview = []\<rparr>)
       (\<lambda>res. Inr (Some (res\<lparr>preview := cap_preview maxnodes
                                          (order_node_preview (preview res))\<rparr>)))"
  by (simp add: check_slots_def and_then_def split: sum.splits)

lemma check_slots_cpu_branch:
  "num_cpu \<noteq> 0 \<Longrightarrow> num_gpu = 0 \<Longrightarrow>
   check_slots static dynamic gpu num_cpu amount_ram amount_disk num_gpu num_jobs
       job_duration maxnodes verbose =
     and_then (check_each (\<lambda>node. check_dynamic_slots node num_cpu amount_ram
                             job_duration num_jobs) dynamic \<lparr>slots = [], preview = []\<rparr>)
       (\<lambda>res1. and_then (check_each (\<lambda>node. check_static_slots node num_cpu amount_ram
                             job_duration num_jobs) static res1)
       (\<lambda>res. Inr (Some (res\<lparr>preview := cap_preview maxnodes
                                          (order_node_preview (preview res))\<rparr>))))"
  by (simp add: check_slots_def and_then_def split: sum.splits)

lemma set_ranked: "set (cap_preview k (order_node_preview xs)) \<subseteq> set xs"
  using set_cap_preview [of k "order_node_preview xs"] by (simp add: set_order_node_preview)

lemma gpu_run:
  assumes c: "num_cpu \<noteq> 0" and g: "num_gpu \<noteq> 0"
    and run: "check_slots static dynamic gpu num_cpu amount_ram amount_disk num_gpu num_jobs
                job_duration maxnodes verbose = Inr res"
  shows "\<exists>pr. res = Some pr \<and> length (slots pr) = length gpu
     \<and> (\<forall>d\<in>set (slots pr). \<exists>s\<in>set gpu. \<exists>p.
           check_gpu_slots s num_cpu num_gpu amount_ram job_duration num_jobs = Inr (d, p))
     \<and> (\<forall>p\<in>set (preview pr). preview_type p = ''gpu'' \<and> (\<exists>s\<in>set gpu. \<exists>d.
           check_gpu_slots s num_cpu num_gpu amount_ram job_duration num_jobs = Inr (d, p)))"
proof -
  let ?G = "\<lambda>node. check_gpu_slots node num_cpu num_gpu amount_ram job_duration num_jobs"
  from run obtain r0 where r0: "check_each ?G gpu \<lparr>slots = [], preview = []\<rparr> = Inr r0"
    and res: "res = Some (r0\<lparr>preview := cap_preview maxnodes
                                           (order_node_preview (preview r0))\<rparr>)"
    unfolding check_slots_gpu_branch [OF c g] by (auto simp: and_then_Inr)
  from check_each_result [OF r0] obtain rs where
    rs: "map ?G gpu = map Inr rs" and sl: "slots r0 = map fst rs"
    and pv: "preview r0 = map snd rs"
    by auto
  let ?pr = "r0\<lparr>preview := cap_preview maxnodes (order_node_preview (preview r0))\<rparr>"
  have "length rs = length gpu"
    using rs by (metis length_map)
  then have len: "length (slots ?pr) = length gpu"
    by (simp add: sl)
  have each: "\<exists>s\<in>set gpu. ?G s = Inr r" if "r \<in> set rs" for r
    using map_Inr_member [OF rs that] .
  have A: "\<forall>d\<in>set (slots ?pr). \<exists>s\<in>set gpu. \<exists>p. ?G s = Inr (d, p)"
  proof
    fix d
    assume "d \<in> set (slots ?pr)"
    then obtain r where "r \<in> set rs" "fst r = d"
      using sl by auto
    with each [of r] show "\<exists>s\<in>set gpu. \<exists>p. ?G s = Inr (d, p)"
      by (cases r) auto
  qed
  have B: "\<forall>p\<in>set (preview ?pr).
             preview_type p = ''gpu'' \<and> (\<exists>s\<in>set gpu. \<exists>d. ?G s = Inr (d, p))"
  proof
    fix p
    assume "p \<in> set (preview ?pr)"
    then have "p \<in> set (preview r0)"
      using set_ranked by auto
    then obtain r where r: "r \<in> set rs" "snd r = p"
      using pv by auto
    from each [OF r(1)] obtain s where s: "s \<in> set gpu" "?G s = Inr r"
      by blast
    then have "?G s = Inr (fst r, p)"
      using r(2) by (cases r) auto
    with s(1) gpu_preview_type
    show "preview_type p = ''gpu'' \<and> (\<exists>s\<in>set gpu. \<exists>d. ?G s = Inr (d, p))"
      by blast
  qed
  from res len A B show ?thesis by blast
qed

lemma cpu_run:
  assumes c: "num_cpu \<noteq> 0" and g: "num_gpu = 0"
    and run: "check_slots static dynamic gpu num_cpu amount_ram amount_disk num_gpu num_jobs
                job_duration maxnodes verbose = Inr res"
  shows "\<exists>pr. res = Some pr \<and> length (slots pr) = length dynamic + length static
     \<and> (\<forall>p\<in>set (preview pr). preview_type p \<noteq> ''gpu''
           \<and> ((\<exists>s\<in>set dynamic. \<exists>d.
                  check_dynamic_slots s num_cpu amount_ram job_duration num_jobs = Inr (d, p))
              \<or> (\<exists>s\<in>set static. \<exists>d.
                  check_static_slots s num_cpu amount_ram job_duration num_jobs = Inr (d, p))))"
proof -
  let ?D = "\<lambda>node. check_dynamic_slots node num_cpu amount_ram job_duration num_jobs"
  let ?S = "\<lambda>node. check_static_slots node num_cpu amount_ram job_duration num_jobs"
  from run obtain r1 r2 where
    r1: "check_each ?D dynamic \<lparr>slots = [], preview = []\<rparr> = Inr r1"
    and r2: "check_each ?S static r1 = Inr r2"
    and res: "res = Some (r2\<lparr>preview := cap_preview maxnodes
                                           (order_node_preview (preview r2))\<rparr>)"
    unfolding check_slots_cpu_branch [OF c g] by (auto simp: and_then_Inr)
  from check_each_result [OF r1] obtain rs1 where
    rs1: "map ?D dynamic = map Inr rs1" and sl1: "slots r1 = map fst rs1"
    and pv1: "preview r1 = map snd rs1"
    by auto
  from check_each_result [OF r2] obtain rs2 where
    rs2: "map ?S static = map Inr rs2" and sl2: "slots r2 = slots r1 @ map fst rs2"
    and pv2: "preview r2 = preview r1 @ map snd rs2"
    by auto
  let ?pr = "r2\<lparr>preview := cap_preview maxnodes (order_node_preview (preview r2))\<rparr>"
  have l1: "length rs1 = length dynamic"
    using rs1 by (metis length_map)
  have l2: "length rs2 = length static"
    using rs2 by (metis length_map)
  have len: "length (slots ?pr) = length dynamic + length static"
    by (simp add: sl2 sl1 l1 l2)
  have B: "\<forall>p\<in>set (preview ?pr). preview_type p \<noteq> ''gpu''
           \<and> ((\<exists>s\<in>set dynamic. \<exists>d. ?D s = Inr (d, p))
              \<or> (\<exists>s\<in>set static. \<exists>d. ?S s = Inr (d, p)))"
  proof
    fix p
    assume "p \<in> set (preview ?pr)"
    then have "p \<in> set (preview r2)"
      using set_ranked by auto
    then consider r where "r \<in> set rs1" "snd r = p" | r where "r \<in> set rs2" "snd r = p"
      using pv1 pv2 by auto
    then show "preview_type p \<noteq> ''gpu''
           \<and> ((\<exists>s\<in>set dynamic. \<exists>d. ?D s = Inr (d, p))
              \<or> (\<exists>s\<in>set static. \<exists>d. ?S s = Inr (d, p)))"
    proof cases
      case 1
      from map_Inr_member [OF rs1 1(1)] obtain s where s: "s \<in> set dynamic" "?D s = Inr r"
        by blast
      then have e: "?D s = Inr (fst r, p)"
        using 1(2) by (cases r) auto
      then have "preview_type p = ''dynamic''"
        by (rule dynamic_preview_type)
      with s(1) e show ?thesis by auto
    next
      case 2
      from map_Inr_member [OF rs2 2(1)] obtain s where s: "s \<in> set static" "?S s = Inr r"
        by blast
      then have e: "?S s = Inr (fst r, p)"
        using 2(2) by (cases r) auto
      then have "preview_type p = ''static''"
        by (rule static_preview_type)
      with s(1) e show ?thesis by auto
    qed
  qed
  from res len B show ?thesis by blast
qed

lemma sample_gpu_run:
  "check_slots [sample_slot ''static'' 10 8 64 0] [sample_slot ''dynamic'' 1 32 500 0]
       [sample_slot ''gpu'' 2 8 64 4] 1 1 0 1 1 0 0 False
     = Inr (Some \<lparr>slots = [\<lparr>nd_node = ''node1'', nd_type = ''gpu'', nd_total_slots = 2,
                             nd_cores = 8, nd_gpus = Some 4, nd_disk = 100, nd_ram = 64\<rparr>],
                  preview = [\<lparr>name = ''node1'', preview_type = ''gpu'', fits = ''YES'',
                               core_usage = Shown 1 8 12, gpu_usage = Shown 1 4 25,
                               ram_usage = Shown 1 64 2, sim_jobs = 4,
                               wall_time_on_idle = NoWallTime\<rparr>]\<rparr>)"
  by (simp add: check_slots_def check_gpu_slots_def sample_slot_def eval_defs
        order_node_preview_def cap_preview_def)

lemma sample_cpu_run:
  "check_slots [sample_slot ''static'' 10 8 64 0] [sample_slot ''dynamic'' 1 32 500 0]
       [sample_slot ''gpu'' 2 8 64 4] 1 1 0 0 1 0 0 False
     = Inr (Some \<lparr>slots = [\<lparr>nd_node = ''node1'', nd_type = ''dynamic'', nd_total_slots = 1,
                             nd_cores = 32, nd_gpus = None, nd_disk = 100, nd_ram = 500\<rparr>,
                            \<lparr>nd_node = ''node1'', nd_type = ''static'', nd_total_slots = 10,
                             nd_cores = 8, nd_gpus = None, nd_disk = 100, nd_ram = 64\<rparr>],
                  preview = [\<lparr>name = ''node1'', preview_type = ''dynamic'', fits = ''YES'',
                               core_usage = Shown 1 32 3, gpu_usage = Dashes,
                               ram_usage = Shown 1 500 0, sim_jobs = 32,
                               wall_time_on_idle = NoWallTime\<rparr>,
                             \<lparr>name = ''node1'', preview_type = ''static'', fits = ''YES'',
                               core_usage = Shown 1 8 12, gpu_usage = Dashes,
                               ram_usage = Shown 1 64 2, sim_jobs = 8,
                               wall_time_on_idle = NoWallTime\<rparr>]\<rparr>)"
  by (simp add: check_slots_def check_dynamic_slots_def check_static_slots_def sample_slot_def
        eval_defs order_node_preview_def cap_preview_def)

text \<open>
  Claim C9. For a request with at least one core and at least one GPU, \<open>check_slots\<close>
  gives the same result whatever the static and dynamic lists hold, so none of their
  slots is evaluated; when it returns, it returns both views, the capacity view has one
  entry for each GPU slot, and every entry of either view is the GPU evaluator's entry
  for a slot of the GPU list, of type \<^verbatim>\<open>gpu\<close> in the fit view. For a request with no GPU
  the result is the same whatever the GPU list holds; with at least one core, when it
  returns, the capacity view has one entry for each dynamic and each static slot and
  every entry of the fit view is the dynamic or the static evaluator's entry for a slot
  of its list, never of type \<^verbatim>\<open>gpu\<close>.
\<close>

theorem check_slots_class_gate:
  "(1 \<le> num_cpu \<and> 1 \<le> num_gpu \<longrightarrow>
      check_slots static dynamic gpu num_cpu amount_ram amount_disk num_gpu num_jobs
          job_duration maxnodes verbose
        = check_slots [] [] gpu num_cpu amount_ram amount_disk num_gpu num_jobs
            job_duration maxnodes verbose
      \<and> (\<forall>res. check_slots static dynamic gpu num_cpu amount_ram amount_disk num_gpu num_jobs
                  job_duration maxnodes verbose = Inr res \<longrightarrow>
            (\<exists>pr. res = Some pr \<and> length (slots pr) = length gpu
               \<and> (\<forall>d\<in>set (slots pr). \<exists>s\<in>set gpu. \<exists>p.
                     check_gpu_slots s num_cpu num_gpu amount_ram job_duration num_jobs
                       = Inr (d, p))
               \<and> (\<forall>p\<in>set (preview pr). preview_type p = ''gpu'' \<and> (\<exists>s\<in>set gpu. \<exists>d.
                     check_gpu_slots s num_cpu num_gpu amount_ram job_duration num_jobs
                       = Inr (d, p))))))
   \<and> (num_gpu = 0 \<longrightarrow>
      check_slots static dynamic gpu num_cpu amount_ram amount_disk num_gpu num_jobs
          job_duration maxnodes verbose
        = check_slots static dynamic [] num_cpu amount_ram amount_disk num_gpu num_jobs
            job_duration maxnodes verbose)
   \<and> (1 \<le> num_cpu \<and> num_gpu = 0 \<longrightarrow>
        (\<forall>res. check_slots static dynamic gpu num_cpu amount_ram amount_disk num_gpu num_jobs
                  job_duration maxnodes verbose = Inr res \<longrightarrow>
            (\<exists>pr. res = Some pr \<and> length (slots pr) = length dynamic + length static
               \<and> (\<forall>p\<in>set (preview pr). preview_type p \<noteq> ''gpu''
                    \<and> ((\<exists>s\<in>set dynamic. \<exists>d.
                          check_dynamic_slots s num_cpu amount_ram job_duration num_jobs
                            = Inr (d, p))
                       \<or> (\<exists>s\<in>set static. \<exists>d.
                          check_static_slots s num_cpu amount_ram job_duration num_jobs
                            = Inr (d, p)))))))"
proof (intro conjI impI allI)
  assume h: "1 \<le> num_cpu \<and> 1 \<le> num_gpu"
  then have c: "num_cpu \<noteq> 0" and g: "num_gpu \<noteq> 0"
    by auto
  show "check_slots static dynamic gpu num_cpu amount_ram amount_disk num_gpu num_jobs
          job_duration maxnodes verbose
        = check_slots [] [] gpu num_cpu amount_ram amount_disk num_gpu num_jobs
            job_duration maxnodes verbose"
    by (simp add: check_slots_gpu_branch [OF c g])
  fix res
  assume "check_slots static dynamic gpu num_cpu amount_ram amount_disk num_gpu num_jobs
            job_duration maxnodes verbose = Inr res"
  then show "\<exists>pr. res = Some pr \<and> length (slots pr) = length gpu
               \<and> (\<forall>d\<in>set (slots pr). \<exists>s\<in>set gpu. \<exists>p.
                     check_gpu_slots s num_cpu num_gpu amount_ram job_duration num_jobs
                       = Inr (d, p))
               \<and> (\<forall>p\<in>set (preview pr). preview_type p = ''gpu'' \<and> (\<exists>s\<in>set gpu. \<exists>d.
                     check_gpu_slots s num_cpu num_gpu amount_ram job_duration num_jobs
                       = Inr (d, p)))"
    by (rule gpu_run [OF c g])
next
  assume "num_gpu = 0"
  then show "check_slots static dynamic gpu num_cpu amount_ram amount_disk num_gpu num_jobs
          job_duration maxnodes verbose
        = check_slots static dynamic [] num_cpu amount_ram amount_disk num_gpu num_jobs
            job_duration maxnodes verbose"
    by (cases "num_cpu = 0") (simp_all add: check_slots_def)
next
  fix res
  assume h: "1 \<le> num_cpu \<and> num_gpu = 0"
  then have c: "num_cpu \<noteq> 0" and g: "num_gpu = 0"
    by auto
  assume "check_slots static dynamic gpu num_cpu amount_ram amount_disk num_gpu num_jobs
            job_duration maxnodes verbose = Inr res"
  then show "\<exists>pr. res = Some pr \<and> length (slots pr) = length dynamic + length static
               \<and> (\<forall>p\<in>set (preview pr). preview_type p \<noteq> ''gpu''
                    \<and> ((\<exists>s\<in>set dynamic. \<exists>d.
                          check_dynamic_slots s num_cpu amount_ram job_duration num_jobs
                            = Inr (d, p))
                       \<or> (\<exists>s\<in>set static. \<exists>d.
                          check_static_slots s num_cpu amount_ram job_duration num_jobs
                            = Inr (d, p))))"
    by (rule cpu_run [OF c g])
qed

theorem check_slots_class_gate_witness:
  "(1::int) \<le> 1
   \<and> check_slots [sample_slot ''static'' 10 8 64 0] [sample_slot ''dynamic'' 1 32 500 0]
         [sample_slot ''gpu'' 2 8 64 4] 1 1 0 1 1 0 0 False
       = check_slots [] [] [sample_slot ''gpu'' 2 8 64 4] 1 1 0 1 1 0 0 False
   \<and> (\<exists>pr. check_slots [sample_slot ''static'' 10 8 64 0] [sample_slot ''dynamic'' 1 32 500 0]
                [sample_slot ''gpu'' 2 8 64 4] 1 1 0 1 1 0 0 False = Inr (Some pr)
           \<and> map nd_type (slots pr) = [''gpu''] \<and> map preview_type (preview pr) = [''gpu''])
   \<and> check_slots [sample_slot ''static'' 10 8 64 0] [sample_slot ''dynamic'' 1 32 500 0]
         [sample_slot ''gpu'' 2 8 64 4] 1 1 0 0 1 0 0 False
       = check_slots [sample_slot ''static'' 10 8 64 0] [sample_slot ''dynamic'' 1 32 500 0]
           [] 1 1 0 0 1 0 0 False
   \<and> (\<exists>pr. check_slots [sample_slot ''static'' 10 8 64 0] [sample_slot ''dynamic'' 1 32 500 0]
                [sample_slot ''gpu'' 2 8 64 4] 1 1 0 0 1 0 0 False = Inr (Some pr)
           \<and> map preview_type (preview pr) = [''dynamic'', ''static''])"
proof -
  have a: "check_slots [sample_slot ''static'' 10 8 64 0] [sample_slot ''dynamic'' 1 32 500 0]
         [sample_slot ''gpu'' 2 8 64 4] 1 1 0 1 1 0 0 False
       = check_slots [] [] [sample_slot ''gpu'' 2 8 64 4] 1 1 0 1 1 0 0 False"
    using check_slots_class_gate
            [of 1 1 "[sample_slot ''static'' 10 8 64 0]" "[sample_slot ''dynamic'' 1 32 500 0]"
                "[sample_slot ''gpu'' 2 8 64 4]" 1 0 1 0 0 False]
    by simp
  have b: "check_slots [sample_slot ''static'' 10 8 64 0] [sample_slot ''dynamic'' 1 32 500 0]
         [sample_slot ''gpu'' 2 8 64 4] 1 1 0 0 1 0 0 False
       = check_slots [sample_slot ''static'' 10 8 64 0] [sample_slot ''dynamic'' 1 32 500 0]
           [] 1 1 0 0 1 0 0 False"
    using check_slots_class_gate
            [of 1 0 "[sample_slot ''static'' 10 8 64 0]" "[sample_slot ''dynamic'' 1 32 500 0]"
                "[sample_slot ''gpu'' 2 8 64 4]" 1 0 1 0 0 False]
    by simp
  show ?thesis
    by (intro conjI) (simp, rule a, simp add: sample_gpu_run, rule b, simp add: sample_cpu_run)
qed

text \<open>
  Claim C8. When the three quantities of the request normalise and the request has no
  core or its RAM amount is zero after normalisation, \<open>prepare_checking\<close> returns
  \<open>False\<close> and \<open>check_slots\<close> is not called: nothing is produced for the tables. This holds
  for every inventory, also one on which an evaluator would raise.
\<close>

theorem prepare_checking_aborts:
  assumes "split_number_unit ram_in = Inr (a, u)"
    and "split_number_unit disk_in = Inr (b, v)"
    and "split_duration_unit duration_in = Inr (t, w)"
    and "cpu = 0 \<or> calc_to_bin a u = 0"
  shows "prepare_checking slot_config cpu gpu ram_in disk_in jobs duration_in maxnodes verbose
           = Inr (False, None)"
  using assms by (auto simp: prepare_checking_def and_then_def Let_def split_def)

theorem prepare_checking_aborts_witness:
  "split_number_unit (Some ''0GB'') = Inr (0, ''GB'')
   \<and> split_number_unit None = Inr (0, ''GiB'')
   \<and> split_duration_unit (Some ''2h'') = Inr (2, ''h'')
   \<and> calc_to_bin 0 ''GB'' = 0
   \<and> prepare_checking sample_inventory 4 0 (Some ''0GB'') None 1 (Some ''2h'') 0 False
       = Inr (False, None)"
proof -
  have a: "split_number_unit (Some ''0GB'') = Inr (0, ''GB'')"
    by (simp add: unit_defs)
  have b: "split_number_unit None = Inr (0, ''GiB'')"
    by (simp add: unit_defs)
  have c: "split_duration_unit (Some ''2h'') = Inr (2, ''h'')"
    by (simp add: unit_defs)
  have d: "calc_to_bin 0 ''GB'' = 0"
    by (simp add: unit_defs)
  then have d': "(4::int) = 0 \<or> calc_to_bin 0 ''GB'' = 0"
    by simp
  from prepare_checking_aborts [OF a b c d', of sample_inventory 0 1 0 False] a b c d
  show ?thesis by simp
qed

text \<open>
  Claim C10. \<open>check_slots\<close> returns the same result for any two disk amounts, all other
  arguments equal: both views, and so every \<open>fits\<close>, \<open>sim_jobs\<close> and
  \<open>wall_time_on_idle\<close>, are the same. The same holds for \<open>prepare_checking\<close> and any two
  disk inputs that both split into a number and a unit.
\<close>

theorem disk_never_influences:
  "check_slots static dynamic gpu num_cpu amount_ram disk1 num_gpu num_jobs job_duration
       maxnodes verbose
     = check_slots static dynamic gpu num_cpu amount_ram disk2 num_gpu num_jobs job_duration
         maxnodes verbose
   \<and> ((\<exists>x. split_number_unit disk_a = Inr x) \<and> (\<exists>y. split_number_unit disk_b = Inr y) \<longrightarrow>
        prepare_checking slot_config cpu gpu_n ram_in disk_a jobs duration_in maxnodes verbose
          = prepare_checking slot_config cpu gpu_n ram_in disk_b jobs duration_in maxnodes
              verbose)"
proof (intro conjI impI)
  show "check_slots static dynamic gpu num_cpu amount_ram disk1 num_gpu num_jobs job_duration
       maxnodes verbose
     = check_slots static dynamic gpu num_cpu amount_ram disk2 num_gpu num_jobs job_duration
         maxnodes verbose"
    by (simp add: check_slots_def)
next
  assume "(\<exists>x. split_number_unit disk_a = Inr x) \<and> (\<exists>y. split_number_unit disk_b = Inr y)"
  then obtain x y where x: "split_number_unit disk_a = Inr x"
    and y: "split_number_unit disk_b = Inr y"
    by blast
  have indep: "check_slots st dy gp c r (calc_to_bin (fst x) (snd x)) g j t m vb
                 = check_slots st dy gp c r (calc_to_bin (fst y) (snd y)) g j t m vb"
    for st dy gp c r g j t m vb
    by (simp add: check_slots_def)
  show "prepare_checking slot_config cpu gpu_n ram_in disk_a jobs duration_in maxnodes verbose
          = prepare_checking slot_config cpu gpu_n ram_in disk_b jobs duration_in maxnodes
              verbose"
    unfolding prepare_checking_def Let_def split_def
    by (cases "split_number_unit ram_in"; cases "split_duration_unit duration_in")
       (simp_all add: x y and_then_def indep)
qed

lemma returning_run:
  "prepare_checking returning_inventory 4 0 (Some ''16GB'') (Some ''10GB'') 20 (Some ''2h'') 0
       False
     = Inr (True, Some returning_result)"
  by (simp add: prepare_checking_def filter_slots_def returning_inventory_def
        returning_result_def untagged_static_def unit_defs check_slots_def
        check_dynamic_slots_def check_static_slots_def eval_defs order_node_preview_def
        cap_preview_def)

theorem disk_never_influences_witness:
  "(\<exists>x. split_number_unit (Some ''10GB'') = Inr x) \<and> (\<exists>y. split_number_unit None = Inr y)
   \<and> prepare_checking returning_inventory 4 0 (Some ''16GB'') (Some ''10GB'') 20
        (Some ''2h'') 0 False = Inr (True, Some returning_result)
   \<and> prepare_checking returning_inventory 4 0 (Some ''16GB'') None 20
        (Some ''2h'') 0 False = Inr (True, Some returning_result)
   \<and> map (\<lambda>p. (fits p, sim_jobs p, wall_time_on_idle p)) (preview returning_result)
        = [(''YES'', 8, WallTime 360), (''YES'', 8, WallTime 120)]"
proof -
  have a: "\<exists>x. split_number_unit (Some ''10GB'') = Inr x"
    by (simp add: unit_defs)
  have b: "\<exists>y. split_number_unit None = Inr y"
    by (simp add: unit_defs)
  have "(\<exists>x. split_number_unit (Some ''10GB'') = Inr x)
          \<and> (\<exists>y. split_number_unit None = Inr y)"
    using a b by (rule conjI)
  then have eq: "prepare_checking returning_inventory 4 0 (Some ''16GB'') (Some ''10GB'') 20
               (Some ''2h'') 0 False
            = prepare_checking returning_inventory 4 0 (Some ''16GB'') None 20
               (Some ''2h'') 0 False"
    by (rule disk_never_influences
         [where disk_a = "Some ''10GB''" and disk_b = None
            and slot_config = returning_inventory and cpu = 4 and gpu_n = 0
            and ram_in = "Some ''16GB''" and jobs = 20 and duration_in = "Some ''2h''"
            and maxnodes = 0 and verbose = False, THEN conjunct2, THEN mp])
  have rb: "prepare_checking returning_inventory 4 0 (Some ''16GB'') None 20
               (Some ''2h'') 0 False = Inr (True, Some returning_result)"
    by (rule trans [OF eq [symmetric] returning_run])
  have m: "map (\<lambda>p. (fits p, sim_jobs p, wall_time_on_idle p)) (preview returning_result)
             = [(''YES'', 8, WallTime 360), (''YES'', 8, WallTime 120)]"
    by (simp add: returning_result_def)
  show ?thesis
    by (intro conjI) (rule a, rule b, rule returning_run, rule rb, rule m)
qed

end
